theory Spec2Isabelle
  imports Complex_Main "HOL-Library.Multiset"
begin

section \<open>JavaScript numbers and values\<close>

text \<open>
  A JavaScript number is an IEEE 754 double: NaN, one of the two infinities, or a finite
  value, which is held as the rational it denotes. The argument of \<open>Inf\<close> is the sign
  bit: \<open>Inf False\<close> is \<open>Infinity\<close>, \<open>Inf True\<close> is \<open>-Infinity\<close>. Every
  arithmetic operation computes the exact result and rounds it to the nearest double, a tie
  to the even significand; a result of magnitude \<open>2^1024\<close> or more after rounding is an
  infinity. The sign of zero is not held: the functions modelled here never observe it
  (they divide by the literal 7 only, and compare, round and print their results).
\<close>

datatype number = NaN | Inf bool | Fin rat

text \<open>The number of binary digits of a positive integer.\<close>

function bit_length :: "int \<Rightarrow> nat" where
  "bit_length n = (if n \<le> 0 then 0 else Suc (bit_length (n div 2)))"
  by pat_completeness auto
termination
  by (relation "measure nat") auto

declare bit_length.simps [simp del]

definition pow2 :: "int \<Rightarrow> rat" where
  "pow2 k = (if 0 \<le> k then 2 ^ nat k else 1 / 2 ^ nat (- k))"

text \<open>
  The binary exponent of a positive rational \<open>a\<close>, the \<open>e\<close> with
  \<open>2^e \<le> a < 2^(e+1)\<close>: the difference of the bit lengths of numerator and denominator,
  or one less.
\<close>

definition floor_log2 :: "rat \<Rightarrow> int" where
  "floor_log2 a =
     (case quotient_of a of
        (p, d) \<Rightarrow>
          let k = int (bit_length p) - int (bit_length d)
          in if pow2 k \<le> a then k else k - 1)"

definition round_half_even :: "rat \<Rightarrow> int" where
  "round_half_even m =
     (let f = \<lfloor>m\<rfloor>; r = m - of_int f
      in if r < 1 / 2 then f
         else if 1 / 2 < r then f + 1
         else if even f then f else f + 1)"

text \<open>
  Rounding to the nearest double. A double has 53 significant bits, so a value of binary
  exponent \<open>e\<close> is a multiple of \<open>2^(e - 52)\<close>; below the least normal exponent -1022
  the spacing stays at \<open>2^(-1074)\<close> (the subnormal numbers, and zero below half of that).
  \<open>round_magnitude\<close> rounds a positive rational, \<open>None\<close> being the overflow;
  \<open>double_of\<close> rounds the magnitude and keeps the sign.
\<close>

definition round_magnitude :: "rat \<Rightarrow> rat option" where
  "round_magnitude a =
     (let e = floor_log2 a
      in if 1024 \<le> e then None
         else
           let qe = max e (- 1022) - 52;
               n = round_half_even (a / pow2 qe)
           in if e = 1023 \<and> 2 ^ 53 \<le> n then None else Some (of_int n * pow2 qe))"

definition double_of :: "rat \<Rightarrow> number" where
  "double_of q =
     (if q = 0 then Fin 0
      else
        case round_magnitude \<bar>q\<bar> of
          None \<Rightarrow> Inf (q < 0)
        | Some r \<Rightarrow> Fin (if q < 0 then - r else r))"

text \<open>A rational that is a double: rounding leaves it as it is.\<close>

definition is_double :: "rat \<Rightarrow> bool" where
  "is_double q = (double_of q = Fin q)"

fun js_neg :: "number \<Rightarrow> number" where
  "js_neg NaN = NaN"
| "js_neg (Inf s) = Inf (\<not> s)"
| "js_neg (Fin a) = Fin (- a)"

fun js_add :: "number \<Rightarrow> number \<Rightarrow> number" where
  "js_add NaN y = NaN"
| "js_add x NaN = NaN"
| "js_add (Inf s) (Inf t) = (if s = t then Inf s else NaN)"
| "js_add (Inf s) (Fin b) = Inf s"
| "js_add (Fin a) (Inf t) = Inf t"
| "js_add (Fin a) (Fin b) = double_of (a + b)"

definition js_sub :: "number \<Rightarrow> number \<Rightarrow> number" where
  "js_sub x y = js_add x (js_neg y)"

fun js_mul :: "number \<Rightarrow> number \<Rightarrow> number" where
  "js_mul NaN y = NaN"
| "js_mul x NaN = NaN"
| "js_mul (Inf s) (Inf t) = Inf (s \<noteq> t)"
| "js_mul (Inf s) (Fin b) = (if b = 0 then NaN else Inf (s \<noteq> (b < 0)))"
| "js_mul (Fin a) (Inf t) = (if a = 0 then NaN else Inf ((a < 0) \<noteq> t))"
| "js_mul (Fin a) (Fin b) = double_of (a * b)"

fun js_div :: "number \<Rightarrow> number \<Rightarrow> number" where
  "js_div NaN y = NaN"
| "js_div x NaN = NaN"
| "js_div (Inf s) (Inf t) = NaN"
| "js_div (Inf s) (Fin b) = Inf (s \<noteq> (b < 0))"
| "js_div (Fin a) (Inf t) = Fin 0"
| "js_div (Fin a) (Fin b) =
     (if b = 0 then (if a = 0 then NaN else Inf (a < 0)) else double_of (a / b))"

text \<open>The relational operators: every comparison with NaN is false.\<close>

fun js_lt :: "number \<Rightarrow> number \<Rightarrow> bool" where
  "js_lt NaN y = False"
| "js_lt x NaN = False"
| "js_lt (Inf s) (Inf t) = (s \<and> \<not> t)"
| "js_lt (Inf s) (Fin b) = s"
| "js_lt (Fin a) (Inf t) = (\<not> t)"
| "js_lt (Fin a) (Fin b) = (a < b)"

definition js_gt :: "number \<Rightarrow> number \<Rightarrow> bool" where
  "js_gt x y = js_lt y x"

definition js_le :: "number \<Rightarrow> number \<Rightarrow> bool" where
  "js_le x y = (x \<noteq> NaN \<and> y \<noteq> NaN \<and> \<not> js_lt y x)"

fun js_abs :: "number \<Rightarrow> number" where
  "js_abs NaN = NaN"
| "js_abs (Inf s) = Inf False"
| "js_abs (Fin a) = Fin \<bar>a\<bar>"

text \<open>\<open>Math.round\<close> rounds to the nearest integer, a tie towards \<open>+Infinity\<close>.\<close>

fun Math_round :: "number \<Rightarrow> number" where
  "Math_round NaN = NaN"
| "Math_round (Inf s) = Inf s"
| "Math_round (Fin a) = Fin (of_int \<lfloor>a + 1 / 2\<rfloor>)"

text \<open>
  The values a property read of an object literal with numeric members can give:
  \<open>undefined\<close>, a number, or a member inherited from \<open>Object.prototype\<close> (a built-in
  function, or the prototype object itself for \<open>__proto__\<close>), named by its key.
\<close>

datatype jsval = Undefined | Number number | Inherited string

fun ToBoolean :: "jsval \<Rightarrow> bool" where
  "ToBoolean Undefined = False"
| "ToBoolean (Number n) = (n \<noteq> NaN \<and> n \<noteq> Fin 0)"
| "ToBoolean (Inherited k) = True"

text \<open>
  \<open>ToNumber\<close>: a function or plain object is first converted to a string
  (\<open>function ... { [native code] }\<close>, \<open>[object Object]\<close>), which is not a numeric literal.
\<close>

fun ToNumber :: "jsval \<Rightarrow> number" where
  "ToNumber Undefined = NaN"
| "ToNumber (Number n) = n"
| "ToNumber (Inherited k) = NaN"

definition js_or :: "jsval \<Rightarrow> jsval \<Rightarrow> jsval" where
  "js_or x y = (if ToBoolean x then x else y)"

text \<open>
  The names every ordinary object inherits from \<open>Object.prototype\<close>; a read of one of
  them on an object literal finds the inherited member.
\<close>

definition Object_prototype_names :: "string list" where
  "Object_prototype_names =
     [''constructor'', ''hasOwnProperty'', ''isPrototypeOf'', ''propertyIsEnumerable'',
      ''toLocaleString'', ''toString'', ''valueOf'', ''__proto__'',
      ''__defineGetter__'', ''__defineSetter__'', ''__lookupGetter__'', ''__lookupSetter__'']"

definition get_property :: "(string \<times> rat) list \<Rightarrow> string \<Rightarrow> jsval" where
  "get_property obj k =
     (case map_of obj k of
        Some v \<Rightarrow> Number (double_of v)
      | None \<Rightarrow> if k \<in> set Object_prototype_names then Inherited k else Undefined)"

section \<open>parseFloat and parseInt\<close>

text \<open>
  Both skip leading white space, read an optional sign and then the longest prefix that is
  a numeric literal; what follows the literal is ignored, and no literal at all gives NaN.
  The value of the literal is rounded to the nearest double (for a literal of more than 20
  significant digits the language lets an engine round an approximation of it; the
  correctly rounded value is taken here). A string is the list of its UTF-16 code units,
  each of them below 256 here; the white space in that range is tab, line feed, vertical
  tab, form feed, carriage return, space and the no-break space U+00A0.
\<close>

definition is_space :: "char \<Rightarrow> bool" where
  "is_space c =
     (c \<in> set [CHR 0x09, CHR 0x0A, CHR 0x0B, CHR 0x0C, CHR 0x0D, CHR '' '', CHR 0xA0])"

definition is_digit :: "char \<Rightarrow> bool" where
  "is_digit c = (c \<in> set ''0123456789'')"

definition is_hex_digit :: "char \<Rightarrow> bool" where
  "is_hex_digit c = (c \<in> set ''0123456789abcdefABCDEF'')"

definition digit_value :: "char \<Rightarrow> nat" where
  "digit_value c =
     (if is_digit c then of_char c - 48
      else if c \<in> set ''abcdef'' then of_char c - 87
      else of_char c - 55)"

definition digits_value :: "int \<Rightarrow> string \<Rightarrow> int" where
  "digits_value radix ds = foldl (\<lambda>a c. radix * a + int (digit_value c)) 0 ds"

fun split_sign :: "string \<Rightarrow> bool \<times> string" where
  "split_sign [] = (False, [])"
| "split_sign (c # cs) =
     (if c = CHR ''-'' then (True, cs)
      else if c = CHR ''+'' then (False, cs)
      else (False, c # cs))"

definition exponent_part :: "string \<Rightarrow> int" where
  "exponent_part r =
     (case r of
        [] \<Rightarrow> 0
      | c # cs \<Rightarrow>
          if c = CHR ''e'' \<or> c = CHR ''E'' then
            (case split_sign cs of
               (neg, ds) \<Rightarrow>
                 let e = takeWhile is_digit ds
                 in if e = [] then 0
                    else if neg then - digits_value 10 e else digits_value 10 e)
          else 0)"

definition scale10 :: "rat \<Rightarrow> int \<Rightarrow> rat" where
  "scale10 m e = (if 0 \<le> e then m * 10 ^ nat e else m / 10 ^ nat (- e))"

definition parseFloat :: "string \<Rightarrow> number" where
  "parseFloat s =
     (case split_sign (dropWhile is_space s) of
        (neg, u) \<Rightarrow>
          if take 8 u = ''Infinity'' then Inf neg
          else
            let ip = takeWhile is_digit u;
                r1 = dropWhile is_digit u;
                dot = (r1 \<noteq> [] \<and> hd r1 = CHR ''.'');
                fp = (if dot then takeWhile is_digit (tl r1) else []);
                r2 = (if dot then dropWhile is_digit (tl r1) else r1)
            in if ip = [] \<and> fp = [] then NaN
               else
                 let m = of_int (digits_value 10 ip)
                           + of_int (digits_value 10 fp) / 10 ^ length fp;
                     x = scale10 m (exponent_part r2)
                 in double_of (if neg then - x else x))"

text \<open>
  \<open>parseInt\<close> without a radix: a \<open>0x\<close> or \<open>0X\<close> prefix selects base 16, anything
  else base 10.
\<close>

definition parseInt :: "string \<Rightarrow> number" where
  "parseInt s =
     (case split_sign (dropWhile is_space s) of
        (neg, u) \<Rightarrow>
          let hex = (take 2 u = ''0x'' \<or> take 2 u = ''0X'');
              ds = (if hex then takeWhile is_hex_digit (drop 2 u) else takeWhile is_digit u);
              v = digits_value (if hex then 16 else 10) ds
          in if ds = [] then NaN else double_of (of_int (if neg then - v else v)))"

section \<open>ProfileScreen: basal metabolic rate and daily expenditure\<close>

text \<open>
  The profile state of \<open>ProfileScreen\<close>. Each field is held as the text that
  JavaScript's \<open>ToString\<close> gives its value: the text inputs store strings, and
  \<open>parseFloat\<close>, \<open>parseInt\<close> and a property read all convert their argument to a
  string first, while \<open>=== 'homme'\<close> holds of no value but that string. A field that
  is absent reads as \<open>''undefined''\<close>; the initial state has \<open>''''\<close> everywhere.
\<close>

record profile =
  weight :: string
  height :: string
  age :: string
  gender :: string
  activityLevel :: string
  goal :: string

definition calculateBMR :: "profile \<Rightarrow> number" where
  "calculateBMR p =
     (if gender p = ''homme''
      then js_add (js_sub (js_add (js_mul (Fin 10) (parseFloat (weight p)))
                                  (js_mul (Fin (25 / 4)) (parseFloat (height p))))
                          (js_mul (Fin 5) (parseInt (age p))))
                  (Fin 5)
      else js_sub (js_sub (js_add (js_mul (Fin 10) (parseFloat (weight p)))
                                  (js_mul (Fin (25 / 4)) (parseFloat (height p))))
                          (js_mul (Fin 5) (parseInt (age p))))
                  (Fin 161))"

text \<open>
  The six intermediate results of the formula at the weight \<open>w\<close>, the height \<open>h\<close>,
  the age \<open>a\<close> and the final constant \<open>c\<close> are doubles, so that no operation of
  \<open>calculateBMR\<close> rounds.
\<close>

definition BMR_unrounded :: "rat \<Rightarrow> rat \<Rightarrow> rat \<Rightarrow> rat \<Rightarrow> bool" where
  "BMR_unrounded w h a c =
     (is_double (10 * w) \<and> is_double (25 / 4 * h) \<and> is_double (5 * a)
      \<and> is_double (10 * w + 25 / 4 * h)
      \<and> is_double (10 * w + 25 / 4 * h - 5 * a)
      \<and> is_double (10 * w + 25 / 4 * h - 5 * a + c))"

text \<open>
  The object literal \<open>levels\<close>, each key with the decimal literal written in the source;
  a read of a key gives the double that the literal denotes.
\<close>

definition levels :: "(string \<times> rat) list" where
  "levels =
     [(''sedentaire'', 12 / 10),
      (''leger'', 1375 / 1000),
      (''modere'', 155 / 100),
      (''actif'', 1725 / 1000),
      (''tresActif'', 19 / 10)]"

definition getActivityMultiplier :: "profile \<Rightarrow> jsval" where
  "getActivityMultiplier p =
     js_or (get_property levels (activityLevel p)) (Number (double_of (12 / 10)))"

definition calculateTDEE :: "profile \<Rightarrow> number" where
  "calculateTDEE p = js_mul (calculateBMR p) (ToNumber (getActivityMultiplier p))"

section \<open>GoalSettings: the recommended daily calories\<close>

record goals =
  type :: string
  weeklyChange :: string
  targetWeight :: string
  deadline :: string

text \<open>
  The local constant \<open>baseCalories\<close> of \<open>calculateDailyCalories\<close>; the source marks it
  as a stand-in for the calculation from the profile.
\<close>

definition baseCalories :: number where
  "baseCalories = Fin 2000"

text \<open>
  The local variable \<open>adjustment\<close> after the \<open>switch\<close>: one kilogram is 7700 calories,
  spread over the seven days of the week; a type other than \<open>perte\<close> and \<open>prise\<close> leaves
  it at zero.
\<close>

definition adjustment :: "goals \<Rightarrow> number" where
  "adjustment g =
     (if type g = ''perte''
        then js_div (js_neg (js_mul (Fin 7700) (parseFloat (weeklyChange g)))) (Fin 7)
      else if type g = ''prise''
        then js_div (js_mul (Fin 7700) (parseFloat (weeklyChange g))) (Fin 7)
      else Fin 0)"


definition calculateDailyCalories :: "goals \<Rightarrow> number" where
  "calculateDailyCalories g = Math_round (js_add baseCalories (adjustment g))"

section \<open>NutritionAnalysisScreen: the calorie trend line\<close>

record trend =
  direction :: string
  slope :: number
  trend_values :: "number list"

text \<open>
  The text of the paragraph under the chart; \<open>None\<close> is the \<open>null\<close> returned when
  the analysis has no trend. A false left operand of \<open>&&\<close> renders nothing.
\<close>

definition renderCaloriesTrend :: "trend option \<Rightarrow> string option" where
  "renderCaloriesTrend t =
     (case t of
        None \<Rightarrow> None
      | Some tr \<Rightarrow>
          Some (''Tendance : '' @ direction tr
                @ (if js_gt (slope tr) (Fin 10) then '' (changement significatif)'' else '''')))"

section \<open>EatingHabitsScreen: regularity of meal times\<close>

record meal_time =
  average_time :: number
  consistency :: number

text \<open>
  The three labels of the regularity line: excellent (\<open>Excellente\<close>), good
  (\<open>Bonne\<close>) and needs improvement (the last branch of the conditional).
\<close>

datatype tier = Excellente | Bonne | A_ameliorer

definition regularite :: "meal_time \<Rightarrow> tier" where
  "regularite d =
     (if js_lt (consistency d) (Fin 1) then Excellente
      else if js_lt (consistency d) (Fin 2) then Bonne
      else A_ameliorer)"

text \<open>The order excellent, good, needs improvement, as a rank.\<close>

fun tier_rank :: "tier \<Rightarrow> nat" where
  "tier_rank Excellente = 2"
| "tier_rank Bonne = 1"
| "tier_rank A_ameliorer = 0"

text \<open>
  The regularity label shown for every meal of \<open>meal_time_distribution\<close>, in the order
  of its entries; \<open>None\<close> is the \<open>null\<close> returned when the analysis has no meal
  timing.
\<close>

definition renderMealTimingSection ::
  "(string \<times> meal_time) list option \<Rightarrow> (string \<times> tier) list option" where
  "renderMealTimingSection meal_timing =
     (case meal_timing of
        None \<Rightarrow> None
      | Some mealTimes \<Rightarrow> Some (map (\<lambda>(meal, d). (meal, regularite d)) mealTimes))"

section \<open>Macro split of the goal calculator\<close>

text \<open>
  The goal calculator behind \<open>/calculate_goals\<close> and the Aggregator run on the server,
  whose code is not among the sources; the page script only posts the form and shows the
  four numbers of the answer. Both are modelled from the spec.
\<close>

text \<open>
  Modelled from the spec: the split ratios, a configuration with the recognised options
  \<open>protein_pct\<close>, \<open>carb_pct\<close> and \<open>fat_pct\<close>.
\<close>

record macroSplit =
  protein_pct :: rat
  carb_pct :: rat
  fat_pct :: rat

text \<open>
  Modelled from the spec: the fixed default policy of 20% protein, 50% carbohydrate and
  30% fat.
\<close>

definition default_macroSplit :: macroSplit where
  "default_macroSplit = \<lparr>protein_pct = 20 / 100, carb_pct = 50 / 100, fat_pct = 30 / 100\<rparr>"

text \<open>
  Modelled from the spec: the goal targets, the calorie goal in kcal a day and the three
  macro goals in grams a day.
\<close>

record GoalTargets =
  calorie_goal :: rat
  protein_goal :: rat
  carb_goal :: rat
  fat_goal :: rat

text \<open>
  Modelled from the spec: the macro split of a calorie goal. Each gram amount is the
  respective calorie share divided by 4, 4 and 9 kcal per gram. The spec fixes no rounding
  of the gram amounts, so none is applied.
\<close>

definition macro_targets :: "macroSplit \<Rightarrow> rat \<Rightarrow> GoalTargets" where
  "macro_targets s c =
     \<lparr>calorie_goal = c,
      protein_goal = protein_pct s * c / 4,
      carb_goal = carb_pct s * c / 4,
      fat_goal = fat_pct s * c / 9\<rparr>"

section \<open>Aggregator\<close>

text \<open>Modelled from the spec: the four meal types of a meal entry.\<close>

datatype meal_kind = Breakfast | Lunch | Dinner | Snack

text \<open>
  Modelled from the spec: a meal entry, with its instant in seconds since the epoch, its
  meal type, its calories and its grams of protein, carbohydrate and fat.
\<close>

record MealEntry =
  entry_id :: nat
  user_ref :: nat
  timestamp :: int
  meal_type :: meal_kind
  calories :: rat
  protein :: rat
  carbs :: rat
  fat :: rat
  food_name :: string

text \<open>
  Modelled from the spec: a period aggregate, with the period key, the total calories and
  macros, the subtotal of calories per meal type and the entry count.
\<close>

record PeriodAggregate =
  period_key :: int
  total_calories :: rat
  total_protein :: rat
  total_carbs :: rat
  total_fat :: rat
  breakfast_calories :: rat
  lunch_calories :: rat
  dinner_calories :: rat
  snack_calories :: rat
  entry_count :: nat

text \<open>Modelled from the spec: the period granularity.\<close>

datatype granularity = Day | Week | Month

text \<open>
  Modelled from the spec: the calendar day of an entry in the supplied time zone, an
  offset in seconds, as a number of days since 1970-01-01.
\<close>

definition local_day :: "int \<Rightarrow> MealEntry \<Rightarrow> int" where
  "local_day tz e = (timestamp e + tz) div 86400"

text \<open>
  Modelled from the spec: the month of a day number, counted in months since year 0 of
  the proleptic Gregorian calendar, computed in eras of 400 years that begin on 1 March.
\<close>

definition month_of_day :: "int \<Rightarrow> int" where
  "month_of_day d =
     (let z = d + 719468;
          era = z div 146097;
          doe = z mod 146097;
          yoe = (doe - doe div 1460 + doe div 36524 - doe div 146096) div 365;
          doy = doe - (365 * yoe + yoe div 4 - yoe div 100);
          mp = (5 * doy + 2) div 153;
          m = (if mp < 10 then mp + 3 else mp - 9);
          y = yoe + era * 400 + (if m \<le> 2 then 1 else 0)
      in 12 * y + (m - 1))"

text \<open>
  Modelled from the spec: the bucketing key, the local calendar day, ISO week or month of
  the entry. Day 0 is a Thursday, so the ISO week of a day begins three days earlier, on
  Monday.
\<close>

fun bucket_key :: "granularity \<Rightarrow> int \<Rightarrow> MealEntry \<Rightarrow> int" where
  "bucket_key Day tz e = local_day tz e"
| "bucket_key Week tz e = (local_day tz e + 3) div 7"
| "bucket_key Month tz e = month_of_day (local_day tz e)"

text \<open>Modelled from the spec: the aggregate of a bucket without entries, all totals zero.\<close>

definition zero_aggregate :: "int \<Rightarrow> PeriodAggregate" where
  "zero_aggregate k =
     \<lparr>period_key = k, total_calories = 0, total_protein = 0, total_carbs = 0, total_fat = 0,
      breakfast_calories = 0, lunch_calories = 0, dinner_calories = 0, snack_calories = 0,
      entry_count = 0\<rparr>"

text \<open>Modelled from the spec: the step of the sum fold, which adds one entry to an aggregate.\<close>

definition add_entry :: "PeriodAggregate \<Rightarrow> MealEntry \<Rightarrow> PeriodAggregate" where
  "add_entry a e =
     a\<lparr>total_calories := total_calories a + calories e,
       total_protein := total_protein a + protein e,
       total_carbs := total_carbs a + carbs e,
       total_fat := total_fat a + fat e,
       breakfast_calories :=
         breakfast_calories a + (if meal_type e = Breakfast then calories e else 0),
       lunch_calories := lunch_calories a + (if meal_type e = Lunch then calories e else 0),
       dinner_calories := dinner_calories a + (if meal_type e = Dinner then calories e else 0),
       snack_calories := snack_calories a + (if meal_type e = Snack then calories e else 0),
       entry_count := entry_count a + 1\<rparr>"

text \<open>
  Modelled from the spec: the aggregate of one bucket, the fold of the entries with that
  key, in the order supplied, into the zero aggregate.
\<close>

definition aggregate_bucket :: "(MealEntry \<Rightarrow> int) \<Rightarrow> MealEntry list \<Rightarrow> int \<Rightarrow> PeriodAggregate" where
  "aggregate_bucket key es k = foldl add_entry (zero_aggregate k) (filter (\<lambda>e. key e = k) es)"

text \<open>
  Modelled from the spec: the Aggregator. Its output is the sequence of period aggregates
  in the order of their keys: without an explicit date range one for every bucket observed
  in the input, with a range one for every bucket of the range, those without entries
  having zero totals. No data gives the empty sequence.
\<close>

definition Aggregator ::
  "granularity \<Rightarrow> int \<Rightarrow> (int \<times> int) option \<Rightarrow> MealEntry list \<Rightarrow> PeriodAggregate list" where
  "Aggregator g tz date_range es =
     map (aggregate_bucket (bucket_key g tz) es)
       (case date_range of
          None \<Rightarrow> sort (remdups (map (bucket_key g tz) es))
        | Some (lo, hi) \<Rightarrow> [lo..hi])"

text \<open>
  Modelled from the spec: the average calories per entry of a period, zero for a period
  without entries rather than a division by zero.
\<close>

definition average_calories :: "PeriodAggregate \<Rightarrow> rat" where
  "average_calories a =
     (if entry_count a = 0 then 0 else total_calories a / of_nat (entry_count a))"

section \<open>Example inputs\<close>

definition example_male :: profile where
  "example_male =
     \<lparr>weight = ''70'', height = ''175'', age = ''30'', gender = ''homme'',
      activityLevel = ''modere'', goal = ''''\<rparr>"

definition example_female :: profile where
  "example_female =
     \<lparr>weight = ''60'', height = ''165'', age = ''25'', gender = ''femme'',
      activityLevel = ''actif'', goal = ''''\<rparr>"





definition example_lose_fast :: goals where
  "example_lose_fast =
     \<lparr>type = ''perte'', weeklyChange = ''1'', targetWeight = '''', deadline = ''''\<rparr>"


definition trend_falling :: trend where
  "trend_falling = \<lparr>direction = ''decreasing'', slope = Fin (- 50), trend_values = []\<rparr>"

definition trend_rising :: trend where
  "trend_rising = \<lparr>direction = ''increasing'', slope = Fin 50, trend_values = []\<rparr>"

definition meal_entry_1 :: MealEntry where
  "meal_entry_1 =
     \<lparr>entry_id = 1, user_ref = 1, timestamp = 28800, meal_type = Breakfast, calories = 300,
      protein = 10, carbs = 40, fat = 8, food_name = ''porridge''\<rparr>"

definition meal_entry_2 :: MealEntry where
  "meal_entry_2 =
     \<lparr>entry_id = 2, user_ref = 1, timestamp = 133200, meal_type = Lunch, calories = 700,
      protein = 30, carbs = 80, fat = 20, food_name = ''pasta''\<rparr>"

definition meal_entry_3 :: MealEntry where
  "meal_entry_3 =
     \<lparr>entry_id = 3, user_ref = 1, timestamp = 57600, meal_type = Snack, calories = 150,
      protein = 2, carbs = 20, fat = 5, food_name = ''apple''\<rparr>"

definition example_rounding :: profile where
  "example_rounding =
     \<lparr>weight = ''51.37'', height = ''160'', age = ''30'', gender = ''homme'',
      activityLevel = ''modere'', goal = ''''\<rparr>"

definition example_english_male :: profile where
  "example_english_male =
     \<lparr>weight = ''70'', height = ''175'', age = ''30'', gender = ''male'',
      activityLevel = ''modere'', goal = ''''\<rparr>"

definition example_constructor :: profile where
  "example_constructor =
     \<lparr>weight = ''70'', height = ''175'', age = ''30'', gender = ''homme'',
      activityLevel = ''constructor'', goal = ''''\<rparr>"

definition example_unknown_level :: profile where
  "example_unknown_level =
     \<lparr>weight = ''70'', height = ''175'', age = ''30'', gender = ''homme'',
      activityLevel = ''moderate'', goal = ''''\<rparr>"

definition regular_breakfast :: meal_time where
  "regular_breakfast = \<lparr>average_time = Fin 8, consistency = Fin (1 / 2)\<rparr>"

definition shifting_dinner :: meal_time where
  "shifting_dinner = \<lparr>average_time = Fin 20, consistency = Fin (3 / 2)\<rparr>"

section \<open>Rounding and the operations\<close>

lemma double_of_not_NaN: "double_of q \<noteq> NaN"
  by (simp add: double_of_def split: option.split)


lemma js_add_exact: "is_double (a + b) \<Longrightarrow> js_add (Fin a) (Fin b) = Fin (a + b)"
  by (simp add: is_double_def)

lemma js_sub_exact: "is_double (a - b) \<Longrightarrow> js_sub (Fin a) (Fin b) = Fin (a - b)"
  by (simp add: is_double_def js_sub_def)

lemma js_mul_exact: "is_double (a * b) \<Longrightarrow> js_mul (Fin a) (Fin b) = Fin (a * b)"
  by (simp add: is_double_def)



lemma js_mul_Fin_not_NaN: "js_mul (Fin a) (Fin b) \<noteq> NaN"
  by (simp add: double_of_not_NaN)

lemma calculateBMR_operations:
  assumes "parseFloat (weight p) = Fin w" and "parseFloat (height p) = Fin h"
    and "parseInt (age p) = Fin a"
  shows "calculateBMR p =
           (if gender p = ''homme''
            then js_add (js_sub (js_add (js_mul (Fin 10) (Fin w)) (js_mul (Fin (25 / 4)) (Fin h)))
                                (js_mul (Fin 5) (Fin a)))
                        (Fin 5)
            else js_sub (js_sub (js_add (js_mul (Fin 10) (Fin w)) (js_mul (Fin (25 / 4)) (Fin h)))
                                (js_mul (Fin 5) (Fin a)))
                        (Fin 161))"
  using assms by (simp add: calculateBMR_def)

lemma BMR_terms_exact:
  assumes "is_double (10 * w)" and "is_double (25 / 4 * h)" and "is_double (5 * a)"
    and "is_double (10 * w + 25 / 4 * h)" and "is_double (10 * w + 25 / 4 * h - 5 * a)"
  shows "js_sub (js_add (js_mul (Fin 10) (Fin w)) (js_mul (Fin (25 / 4)) (Fin h)))
                (js_mul (Fin 5) (Fin a))
           = Fin (10 * w + 25 / 4 * h - 5 * a)"
  by (simp only: js_mul_exact [OF assms(1)] js_mul_exact [OF assms(2)] js_mul_exact [OF assms(3)]
      js_add_exact [OF assms(4)] js_sub_exact [OF assms(5)])

lemma calculateBMR_exact:
  assumes "parseFloat (weight p) = Fin w" and "parseFloat (height p) = Fin h"
    and "parseInt (age p) = Fin a"
    and "BMR_unrounded w h a (if gender p = ''homme'' then 5 else - 161)"
  shows "calculateBMR p =
           Fin (10 * w + 25 / 4 * h - 5 * a + (if gender p = ''homme'' then 5 else - 161))"
proof -
  have t: "js_sub (js_add (js_mul (Fin 10) (Fin w)) (js_mul (Fin (25 / 4)) (Fin h)))
                  (js_mul (Fin 5) (Fin a))
             = Fin (10 * w + 25 / 4 * h - 5 * a)"
    using assms(4) by (intro BMR_terms_exact) (simp_all add: BMR_unrounded_def)
  have c: "calculateBMR p =
      (if gender p = ''homme'' then js_add (Fin (10 * w + 25 / 4 * h - 5 * a)) (Fin 5)
       else js_sub (Fin (10 * w + 25 / 4 * h - 5 * a)) (Fin 161))"
    by (simp only: calculateBMR_operations [OF assms(1,2,3)] t)
  show ?thesis
  proof (cases "gender p = ''homme''")
    case True
    then have "is_double (10 * w + 25 / 4 * h - 5 * a + 5)"
      using assms(4) by (simp add: BMR_unrounded_def)
    then have "js_add (Fin (10 * w + 25 / 4 * h - 5 * a)) (Fin 5)
        = Fin (10 * w + 25 / 4 * h - 5 * a + 5)"
      by (rule js_add_exact)
    then show ?thesis
      using True c by simp
  next
    case False
    then have "is_double (10 * w + 25 / 4 * h - 5 * a - 161)"
      using assms(4) by (simp add: BMR_unrounded_def)
    then have "js_sub (Fin (10 * w + 25 / 4 * h - 5 * a)) (Fin 161)
        = Fin (10 * w + 25 / 4 * h - 5 * a - 161)"
      by (rule js_sub_exact)
    then show ?thesis
      using False c by simp
  qed
qed

lemma getActivityMultiplier_levels:
  "activityLevel p = ''sedentaire'' \<Longrightarrow> getActivityMultiplier p = Number (double_of (12 / 10))"
  "activityLevel p = ''leger'' \<Longrightarrow> getActivityMultiplier p = Number (double_of (1375 / 1000))"
  "activityLevel p = ''modere'' \<Longrightarrow> getActivityMultiplier p = Number (double_of (155 / 100))"
  "activityLevel p = ''actif'' \<Longrightarrow> getActivityMultiplier p = Number (double_of (1725 / 1000))"
  "activityLevel p = ''tresActif'' \<Longrightarrow> getActivityMultiplier p = Number (double_of (19 / 10))"
proof -
  have v: "ToBoolean (Number (double_of (12 / 10)))" "ToBoolean (Number (double_of (1375 / 1000)))"
    "ToBoolean (Number (double_of (155 / 100)))" "ToBoolean (Number (double_of (1725 / 1000)))"
    "ToBoolean (Number (double_of (19 / 10)))"
    by code_simp+
  show "activityLevel p = ''sedentaire'' \<Longrightarrow> getActivityMultiplier p = Number (double_of (12 / 10))"
    "activityLevel p = ''leger'' \<Longrightarrow> getActivityMultiplier p = Number (double_of (1375 / 1000))"
    "activityLevel p = ''modere'' \<Longrightarrow> getActivityMultiplier p = Number (double_of (155 / 100))"
    "activityLevel p = ''actif'' \<Longrightarrow> getActivityMultiplier p = Number (double_of (1725 / 1000))"
    "activityLevel p = ''tresActif'' \<Longrightarrow> getActivityMultiplier p = Number (double_of (19 / 10))"
    using v by (simp_all add: getActivityMultiplier_def get_property_def levels_def js_or_def)
qed




section \<open>Evaluation of the examples\<close>

lemma example_male_parse:
  "parseFloat (weight example_male) = Fin 70"
  "parseFloat (height example_male) = Fin 175"
  "parseInt (age example_male) = Fin (of_int 30)"
  by code_simp+

lemma example_female_parse:
  "parseFloat (weight example_female) = Fin 60"
  "parseFloat (height example_female) = Fin 165"
  "parseInt (age example_female) = Fin (of_int 25)"
  by code_simp+

lemma example_rounding_parse:
  "parseFloat (weight example_rounding) = double_of (5137 / 100)"
  "parseFloat (weight example_rounding) = Fin (7229684776813199 / 140737488355328)"
  "parseFloat (height example_rounding) = Fin 160"
  "parseInt (age example_rounding) = Fin (of_int 30)"
  by code_simp+





section \<open>The Mifflin-St Jeor formula and the activity multipliers\<close>

text \<open>
  C1, as amended. For every profile whose weight and height read as numbers above 0 and
  whose age reads as an integer of at least 1, \<open>calculateBMR\<close> is
  \<open>10*weight + 6.25*height - 5*age + 5\<close> for the gender \<open>homme\<close> and the same with
  \<open>- 161\<close> for \<open>femme\<close>, each operation being JavaScript's operation on doubles; where
  no operation rounds, that is the exact value of the formula. \<open>calculateTDEE\<close> is that
  BMR times the double 1.2, 1.375, 1.55, 1.725 or 1.9 for the activity level
  \<open>sedentaire\<close>, \<open>leger\<close>, \<open>modere\<close>, \<open>actif\<close> or \<open>tresActif\<close>. The profile
  (70, 175, 30, homme) has the BMR 1648.75 exactly, which is what the formula gives, not
  1753.75.
\<close>

theorem calculateBMR_TDEE_formula:
  assumes "parseFloat (weight p) = Fin w" and "0 < w"
    and "parseFloat (height p) = Fin h" and "0 < h"
    and "parseInt (age p) = Fin (of_int a)" and "1 \<le> a"
  shows "(gender p = ''homme'' \<longrightarrow>
            calculateBMR p =
              js_add (js_sub (js_add (js_mul (Fin 10) (Fin w)) (js_mul (Fin (25 / 4)) (Fin h)))
                             (js_mul (Fin 5) (Fin (of_int a))))
                     (Fin 5))
       \<and> (gender p = ''femme'' \<longrightarrow>
            calculateBMR p =
              js_sub (js_sub (js_add (js_mul (Fin 10) (Fin w)) (js_mul (Fin (25 / 4)) (Fin h)))
                             (js_mul (Fin 5) (Fin (of_int a))))
                     (Fin 161))
       \<and> (gender p = ''homme'' \<and> BMR_unrounded w h (of_int a) 5 \<longrightarrow>
            calculateBMR p = Fin (10 * w + 25 / 4 * h - 5 * of_int a + 5))
       \<and> (gender p = ''femme'' \<and> BMR_unrounded w h (of_int a) (- 161) \<longrightarrow>
            calculateBMR p = Fin (10 * w + 25 / 4 * h - 5 * of_int a - 161))
       \<and> (activityLevel p = ''sedentaire'' \<longrightarrow>
            calculateTDEE p = js_mul (calculateBMR p) (double_of (12 / 10)))
       \<and> (activityLevel p = ''leger'' \<longrightarrow>
            calculateTDEE p = js_mul (calculateBMR p) (double_of (1375 / 1000)))
       \<and> (activityLevel p = ''modere'' \<longrightarrow>
            calculateTDEE p = js_mul (calculateBMR p) (double_of (155 / 100)))
       \<and> (activityLevel p = ''actif'' \<longrightarrow>
            calculateTDEE p = js_mul (calculateBMR p) (double_of (1725 / 1000)))
       \<and> (activityLevel p = ''tresActif'' \<longrightarrow>
            calculateTDEE p = js_mul (calculateBMR p) (double_of (19 / 10)))
       \<and> calculateBMR example_male = Fin (164875 / 100)"
proof -
  note ops = calculateBMR_operations [OF assms(1,3,5)]
  have homme: "gender p = ''homme'' \<longrightarrow>
      calculateBMR p =
        js_add (js_sub (js_add (js_mul (Fin 10) (Fin w)) (js_mul (Fin (25 / 4)) (Fin h)))
                       (js_mul (Fin 5) (Fin (of_int a))))
               (Fin 5)"
    by (simp only: ops) simp
  have femme: "gender p = ''femme'' \<longrightarrow>
      calculateBMR p =
        js_sub (js_sub (js_add (js_mul (Fin 10) (Fin w)) (js_mul (Fin (25 / 4)) (Fin h)))
                       (js_mul (Fin 5) (Fin (of_int a))))
               (Fin 161)"
    by (simp only: ops) simp
  have homme_exact: "gender p = ''homme'' \<and> BMR_unrounded w h (of_int a) 5 \<longrightarrow>
      calculateBMR p = Fin (10 * w + 25 / 4 * h - 5 * of_int a + 5)"
    using calculateBMR_exact [OF assms(1,3,5)] by auto
  have femme_exact: "gender p = ''femme'' \<and> BMR_unrounded w h (of_int a) (- 161) \<longrightarrow>
      calculateBMR p = Fin (10 * w + 25 / 4 * h - 5 * of_int a - 161)"
    using calculateBMR_exact [OF assms(1,3,5)] by auto
  have tdee: "(activityLevel p = ''sedentaire'' \<longrightarrow>
            calculateTDEE p = js_mul (calculateBMR p) (double_of (12 / 10)))
       \<and> (activityLevel p = ''leger'' \<longrightarrow>
            calculateTDEE p = js_mul (calculateBMR p) (double_of (1375 / 1000)))
       \<and> (activityLevel p = ''modere'' \<longrightarrow>
            calculateTDEE p = js_mul (calculateBMR p) (double_of (155 / 100)))
       \<and> (activityLevel p = ''actif'' \<longrightarrow>
            calculateTDEE p = js_mul (calculateBMR p) (double_of (1725 / 1000)))
       \<and> (activityLevel p = ''tresActif'' \<longrightarrow>
            calculateTDEE p = js_mul (calculateBMR p) (double_of (19 / 10)))"
    by (simp add: calculateTDEE_def getActivityMultiplier_levels)
  have ex: "calculateBMR example_male = Fin (164875 / 100)"
    by code_simp
  show ?thesis
    using homme femme homme_exact femme_exact tdee ex by blast
qed

theorem calculateBMR_TDEE_formula_witness:
  "parseFloat (weight example_male) = Fin 70 \<and> (0::rat) < 70
   \<and> parseFloat (height example_male) = Fin 175 \<and> (0::rat) < 175
   \<and> parseInt (age example_male) = Fin (of_int 30) \<and> (1::int) \<le> 30
   \<and> gender example_male = ''homme'' \<and> activityLevel example_male = ''modere''
   \<and> BMR_unrounded 70 175 (of_int 30) 5
   \<and> calculateBMR example_male = Fin (10 * 70 + 25 / 4 * 175 - 5 * of_int 30 + 5)
   \<and> calculateTDEE example_male = Fin (25555625 / 10000)
   \<and> parseFloat (weight example_female) = Fin 60 \<and> (0::rat) < 60
   \<and> parseFloat (height example_female) = Fin 165 \<and> (0::rat) < 165
   \<and> parseInt (age example_female) = Fin (of_int 25) \<and> (1::int) \<le> 25
   \<and> gender example_female = ''femme'' \<and> activityLevel example_female = ''actif''
   \<and> BMR_unrounded 60 165 (of_int 25) (- 161)
   \<and> calculateBMR example_female = Fin (10 * 60 + 25 / 4 * 165 - 5 * of_int 25 - 161)
   \<and> calculateTDEE example_female = js_mul (Fin (134525 / 100)) (double_of (1725 / 1000))
   \<and> calculateTDEE example_female = double_of (232055625 / 100000)"
proof -
  have g: "gender example_male = ''homme''" and l: "activityLevel example_male = ''modere''"
    by (simp_all add: example_male_def)
  have g': "gender example_female = ''femme''"
    and l': "activityLevel example_female = ''actif''"
    by (simp_all add: example_female_def)
  have u: "BMR_unrounded 70 175 (of_int 30) 5" and u': "BMR_unrounded 60 165 (of_int 25) (- 161)"
    by code_simp+
  have t: "js_mul (Fin (164875 / 100)) (double_of (155 / 100)) = Fin (25555625 / 10000)"
    and t': "js_mul (Fin (134525 / 100)) (double_of (1725 / 1000))
               = double_of (232055625 / 100000)"
    by code_simp+
  have pos: "(0::rat) < 70" "(0::rat) < 175" "(1::int) \<le> 30"
    "(0::rat) < 60" "(0::rat) < 165" "(1::int) \<le> 25"
    by simp_all
  note male = calculateBMR_TDEE_formula
      [OF example_male_parse(1) pos(1) example_male_parse(2) pos(2) example_male_parse(3) pos(3)]
  note female = calculateBMR_TDEE_formula
      [OF example_female_parse(1) pos(4) example_female_parse(2) pos(5)
        example_female_parse(3) pos(6)]
  have m: "calculateBMR example_male = Fin (10 * 70 + 25 / 4 * 175 - 5 * of_int 30 + 5)"
    using male g u by blast
  have mt: "calculateTDEE example_male = js_mul (calculateBMR example_male) (double_of (155 / 100))"
    using male l by blast
  have f: "calculateBMR example_female = Fin (10 * 60 + 25 / 4 * 165 - 5 * of_int 25 - 161)"
    using female g' u' by blast
  have ft: "calculateTDEE example_female
          = js_mul (calculateBMR example_female) (double_of (1725 / 1000))"
    using female l' by blast
  have m2: "calculateTDEE example_male = Fin (25555625 / 10000)"
    using m mt t by simp
  have f2: "calculateTDEE example_female = js_mul (Fin (134525 / 100)) (double_of (1725 / 1000))"
    using f ft by simp
  show ?thesis
    using m f m2 f2 t' example_male_parse example_female_parse g l g' l' u u' by simp
qed

text \<open>
  The worked example of C1 as it stands: the BMR of the profile (70, 175, 30, homme) is
  1648.75, not 1753.75.
\<close>

theorem example_male_BMR_counterexample:
  "calculateBMR example_male = Fin (164875 / 100)
   \<and> calculateBMR example_male \<noteq> Fin (175375 / 100)"
  by code_simp

section \<open>The daily calorie delta\<close>






section \<open>Input validation\<close>




section \<open>The safety floor\<close>

text \<open>
  C4, as amended. \<open>calculateDailyCalories\<close> has no safety floor. Whenever the rounded sum
  of its base calories and the delta is below 1.2 times the BMR of a profile, the function
  returns that very sum: a number below the floor, neither an error nor a value clamped to
  the floor.
\<close>

theorem no_safety_floor:
  assumes "js_lt (Math_round (js_add baseCalories (adjustment g)))
                 (js_mul (Fin (12 / 10)) (calculateBMR p))"
  shows "calculateDailyCalories g = Math_round (js_add baseCalories (adjustment g))
       \<and> js_lt (calculateDailyCalories g) (js_mul (Fin (12 / 10)) (calculateBMR p))
       \<and> calculateDailyCalories g \<noteq> NaN"
  using assms by (auto simp add: calculateDailyCalories_def)

theorem no_safety_floor_witness:
  "js_lt (Math_round (js_add baseCalories (adjustment example_lose_fast)))
         (js_mul (Fin (12 / 10)) (calculateBMR example_male))
   \<and> calculateDailyCalories example_lose_fast = Fin 900
   \<and> js_mul (Fin (12 / 10)) (calculateBMR example_male) = Fin (19785 / 10)"
proof -
  have h: "js_lt (Math_round (js_add baseCalories (adjustment example_lose_fast)))
                 (js_mul (Fin (12 / 10)) (calculateBMR example_male))"
    by code_simp
  have v: "Math_round (js_add baseCalories (adjustment example_lose_fast)) = Fin 900"
    by code_simp
  have b: "js_mul (Fin (12 / 10)) (calculateBMR example_male) = Fin (19785 / 10)"
    by code_simp
  show ?thesis
    using no_safety_floor [OF h] h v b by simp
qed

text \<open>
  C4 as it stands fails: for the profile (70, 175, 30, homme) the floor is 1978.5; losing
  1 kg a week, the function returns 900, below the floor, as an ordinary result. The sum of
  the TDEE of that profile and the delta is below the floor as well.
\<close>

theorem infeasible_goal_counterexample:
  "calculateDailyCalories example_lose_fast = Fin 900
   \<and> js_mul (Fin (12 / 10)) (calculateBMR example_male) = Fin (19785 / 10)
   \<and> js_lt (calculateDailyCalories example_lose_fast)
            (js_mul (Fin (12 / 10)) (calculateBMR example_male))
   \<and> js_lt (Math_round (js_add (calculateTDEE example_male) (adjustment example_lose_fast)))
            (js_mul (Fin (12 / 10)) (calculateBMR example_male))"
  by code_simp

section \<open>The macro sum invariant\<close>

text \<open>
  C5. For every calorie goal, the gram amounts of the default split (20% protein, 50%
  carbohydrate, 30% fat, divided by 4, 4 and 9 kcal per gram) give back the calorie goal:
  \<open>protein_goal * 4 + carb_goal * 4 + fat_goal * 9\<close> differs from \<open>calorie_goal\<close> by
  no more than any tolerance, since the difference is zero.
\<close>

theorem macro_sum_invariant:
  assumes "0 \<le> tol"
  shows "\<bar>protein_goal (macro_targets default_macroSplit c) * 4
          + carb_goal (macro_targets default_macroSplit c) * 4
          + fat_goal (macro_targets default_macroSplit c) * 9
          - calorie_goal (macro_targets default_macroSplit c)\<bar> \<le> tol"
  using assms by (simp add: macro_targets_def default_macroSplit_def)

theorem macro_sum_invariant_witness:
  "(0::rat) \<le> 1
   \<and> macro_targets default_macroSplit 1771
       = \<lparr>calorie_goal = 1771, protein_goal = 1771 / 20, carb_goal = 1771 / 8,
          fat_goal = 1771 / 30\<rparr>
   \<and> \<bar>protein_goal (macro_targets default_macroSplit 1771) * 4
        + carb_goal (macro_targets default_macroSplit 1771) * 4
        + fat_goal (macro_targets default_macroSplit 1771) * 9
        - calorie_goal (macro_targets default_macroSplit 1771)\<bar> \<le> 1"
proof -
  have h: "(0::rat) \<le> 1" by simp
  have v: "macro_targets default_macroSplit 1771
       = \<lparr>calorie_goal = 1771, protein_goal = 1771 / 20, carb_goal = 1771 / 8,
          fat_goal = 1771 / 30\<rparr>"
    by (simp add: macro_targets_def default_macroSplit_def)
  show ?thesis
    using macro_sum_invariant [OF h, of 1771] v by simp
qed

section \<open>Order independence of the Aggregator\<close>

lemma add_entry_commute:
  "add_entry (add_entry a x) y = add_entry (add_entry a y) x"
  by (simp add: add_entry_def)

lemma aggregate_bucket_mset:
  assumes "mset es = mset es'"
  shows "aggregate_bucket key es k = aggregate_bucket key es' k"
proof -
  let ?step = "\<lambda>e a. add_entry a e"
  have m: "mset (filter (\<lambda>e. key e = k) es) = mset (filter (\<lambda>e. key e = k) es')"
    using assms by simp
  have c: "?step x \<circ> ?step y = ?step y \<circ> ?step x" for x y
    by (rule ext) (simp add: add_entry_commute)
  have "fold ?step (filter (\<lambda>e. key e = k) es) = fold ?step (filter (\<lambda>e. key e = k) es')"
    using c m by (rule fold_multiset_equiv)
  then show ?thesis
    by (simp add: aggregate_bucket_def foldl_conv_fold)
qed

lemma observed_keys_mset:
  assumes "mset es = mset es'"
  shows "sort (remdups (map key es)) = sort (remdups (map key es'))"
proof -
  have "set es = set es'"
    using assms by (rule mset_eq_setD)
  then have "set (map key es) = set (map key es')"
    by simp
  then have "sorted_list_of_set (set (map key es)) = sorted_list_of_set (set (map key es'))"
    by (rule arg_cong)
  then show ?thesis
    by (simp only: sorted_list_of_set_sort_remdups)
qed

lemma example_entries_mset:
  "mset [meal_entry_1, meal_entry_2, meal_entry_3]
     = mset [meal_entry_3, meal_entry_1, meal_entry_2]"
  by simp

text \<open>
  C6. For every collection of meal entries and every permutation of it (a list with the
  same multiset of entries), the Aggregator produces the same sequence of period
  aggregates, whatever the granularity, the time zone and the date range: folding an entry
  into an aggregate commutes with folding another one, and the observed buckets depend on
  the set of keys only.
\<close>

theorem Aggregator_permutation:
  assumes "mset es = mset es'"
  shows "Aggregator g tz date_range es = Aggregator g tz date_range es'
       \<and> map average_calories (Aggregator g tz date_range es)
           = map average_calories (Aggregator g tz date_range es')"
proof -
  have b: "aggregate_bucket (bucket_key g tz) es = aggregate_bucket (bucket_key g tz) es'"
    using assms by (intro ext aggregate_bucket_mset)
  have k: "sort (remdups (map (bucket_key g tz) es)) = sort (remdups (map (bucket_key g tz) es'))"
    using assms by (rule observed_keys_mset)
  have "Aggregator g tz date_range es = Aggregator g tz date_range es'"
    unfolding Aggregator_def b k by (rule refl)
  then show ?thesis
    by simp
qed

theorem Aggregator_permutation_witness:
  "mset [meal_entry_1, meal_entry_2, meal_entry_3]
     = mset [meal_entry_3, meal_entry_1, meal_entry_2]
   \<and> Aggregator Day 0 None [meal_entry_1, meal_entry_2, meal_entry_3]
       = Aggregator Day 0 None [meal_entry_3, meal_entry_1, meal_entry_2]
   \<and> map total_calories (Aggregator Day 0 None [meal_entry_3, meal_entry_1, meal_entry_2])
       = [450, 700]
   \<and> map average_calories (Aggregator Day 0 None [meal_entry_1, meal_entry_2, meal_entry_3])
       = map average_calories (Aggregator Day 0 None [meal_entry_3, meal_entry_1, meal_entry_2])"
proof -
  have v: "map total_calories (Aggregator Day 0 None [meal_entry_3, meal_entry_1, meal_entry_2])
             = [450, 700]"
    by code_simp
  show ?thesis
    using Aggregator_permutation [OF example_entries_mset, of Day 0 None] example_entries_mset v
    by simp
qed

section \<open>The significance mark of the calorie trend\<close>

lemma trend_marked_iff:
  "renderCaloriesTrend (Some t)
     = Some (''Tendance : '' @ direction t @ '' (changement significatif)'')
   \<longleftrightarrow> js_gt (slope t) (Fin 10)"
  by (simp add: renderCaloriesTrend_def)

text \<open>
  C7. The trend line is marked as a significant change when the slope itself exceeds 10,
  not when its absolute value does: a falling series of slope -50 is shown without the
  mark, while a rising one of slope 50, of the same magnitude, carries it.
\<close>

theorem significant_only_when_rising:
  "renderCaloriesTrend (Some trend_falling) = Some ''Tendance : decreasing''
   \<and> js_gt (js_abs (slope trend_falling)) (Fin 10)
   \<and> renderCaloriesTrend (Some trend_rising)
       = Some ''Tendance : increasing (changement significatif)''
   \<and> js_abs (slope trend_falling) = js_abs (slope trend_rising)"
  by code_simp

section \<open>Monotone tiers of meal-time regularity\<close>

lemma js_lt_trans_le: "js_le x y \<Longrightarrow> js_lt y z \<Longrightarrow> js_lt x z"
  by (cases x; cases y; cases z) (auto simp add: js_le_def)

text \<open>
  C8. The tier of meal-time regularity is monotone in the consistency score: for any two
  meals with scores \<open>c1 \<le> c2\<close>, the tier of \<open>c1\<close> ranks at least as well as the tier
  of \<open>c2\<close> in the order excellent, good, needs improvement. The meal type plays no part,
  and the boundaries are the two fixed thresholds 1 and 2.
\<close>

theorem regularite_monotone:
  assumes "js_le (consistency d1) (consistency d2)"
  shows "tier_rank (regularite d2) \<le> tier_rank (regularite d1)
       \<and> renderMealTimingSection (Some [(m1, d1), (m2, d2)])
           = Some [(m1, regularite d1), (m2, regularite d2)]
       \<and> (regularite d1 = Excellente \<longleftrightarrow> js_lt (consistency d1) (Fin 1))
       \<and> (regularite d1 = Bonne \<longleftrightarrow>
            \<not> js_lt (consistency d1) (Fin 1) \<and> js_lt (consistency d1) (Fin 2))
       \<and> (regularite d1 = A_ameliorer \<longleftrightarrow> \<not> js_lt (consistency d1) (Fin 2))"
proof -
  have lt1: "js_lt (consistency d2) (Fin 1) \<Longrightarrow> js_lt (consistency d1) (Fin 1)"
    using assms by (rule js_lt_trans_le)
  have lt2: "js_lt (consistency d2) (Fin 2) \<Longrightarrow> js_lt (consistency d1) (Fin 2)"
    using assms by (rule js_lt_trans_le)
  have lt12: "js_lt (consistency d1) (Fin 1) \<Longrightarrow> js_lt (consistency d1) (Fin 2)"
    by (cases "consistency d1") auto
  have mono: "tier_rank (regularite d2) \<le> tier_rank (regularite d1)"
    using lt1 lt2 by (auto simp add: regularite_def)
  show ?thesis
    using mono lt12 by (auto simp add: regularite_def renderMealTimingSection_def)
qed

theorem regularite_monotone_witness:
  "js_le (consistency regular_breakfast) (consistency shifting_dinner)
   \<and> regularite regular_breakfast = Excellente
   \<and> regularite shifting_dinner = Bonne
   \<and> tier_rank (regularite shifting_dinner) \<le> tier_rank (regularite regular_breakfast)"
proof -
  have h: "js_le (consistency regular_breakfast) (consistency shifting_dinner)"
    by (simp add: js_le_def regular_breakfast_def shifting_dinner_def)
  show ?thesis
    using regularite_monotone [OF h] h
    by (simp add: regularite_def regular_breakfast_def shifting_dinner_def)
qed

section \<open>The gender test of calculateBMR\<close>

lemma example_english_male_parse:
  "parseFloat (weight example_english_male) = Fin 70"
  "parseFloat (height example_english_male) = Fin 175"
  "parseInt (age example_english_male) = Fin 30"
  by code_simp+

text \<open>
  C9. \<open>calculateBMR\<close> adds the constant 5 when the gender is the string \<open>homme\<close>
  and subtracts 161 for every other gender, the English \<open>male\<close> and the empty string of
  an absent category among them; it returns a number in every case. Where the inputs are
  finite and no operation rounds, the result is the value of the formula with \<open>+ 5\<close>
  exactly when the gender is \<open>homme\<close>, and the value with \<open>- 161\<close> otherwise.
\<close>

theorem calculateBMR_gender:
  "(gender p = ''homme'' \<longrightarrow>
      calculateBMR p =
        js_add (js_sub (js_add (js_mul (Fin 10) (parseFloat (weight p)))
                               (js_mul (Fin (25 / 4)) (parseFloat (height p))))
                       (js_mul (Fin 5) (parseInt (age p))))
               (Fin 5))
   \<and> (gender p \<noteq> ''homme'' \<longrightarrow>
      calculateBMR p =
        js_sub (js_sub (js_add (js_mul (Fin 10) (parseFloat (weight p)))
                               (js_mul (Fin (25 / 4)) (parseFloat (height p))))
                       (js_mul (Fin 5) (parseInt (age p))))
               (Fin 161))
   \<and> (gender p = ''male'' \<or> gender p = '''' \<longrightarrow>
      calculateBMR p =
        js_sub (js_sub (js_add (js_mul (Fin 10) (parseFloat (weight p)))
                               (js_mul (Fin (25 / 4)) (parseFloat (height p))))
                       (js_mul (Fin 5) (parseInt (age p))))
               (Fin 161))
   \<and> (parseFloat (weight p) = Fin w \<and> parseFloat (height p) = Fin h
        \<and> parseInt (age p) = Fin a
        \<and> BMR_unrounded w h a 5 \<and> BMR_unrounded w h a (- 161) \<longrightarrow>
      (calculateBMR p = Fin (10 * w + 25 / 4 * h - 5 * a + 5) \<longleftrightarrow> gender p = ''homme'')
      \<and> (gender p \<noteq> ''homme'' \<longrightarrow>
           calculateBMR p = Fin (10 * w + 25 / 4 * h - 5 * a - 161)))"
proof -
  have ops: "(gender p = ''homme'' \<longrightarrow>
      calculateBMR p =
        js_add (js_sub (js_add (js_mul (Fin 10) (parseFloat (weight p)))
                               (js_mul (Fin (25 / 4)) (parseFloat (height p))))
                       (js_mul (Fin 5) (parseInt (age p))))
               (Fin 5))
   \<and> (gender p \<noteq> ''homme'' \<longrightarrow>
      calculateBMR p =
        js_sub (js_sub (js_add (js_mul (Fin 10) (parseFloat (weight p)))
                               (js_mul (Fin (25 / 4)) (parseFloat (height p))))
                       (js_mul (Fin 5) (parseInt (age p))))
               (Fin 161))"
    by (simp add: calculateBMR_def)
  have other: "gender p = ''male'' \<or> gender p = '''' \<longrightarrow> gender p \<noteq> ''homme''"
    by auto
  have exact: "(calculateBMR p = Fin (10 * w + 25 / 4 * h - 5 * a + 5) \<longleftrightarrow> gender p = ''homme'')
      \<and> (gender p \<noteq> ''homme'' \<longrightarrow> calculateBMR p = Fin (10 * w + 25 / 4 * h - 5 * a - 161))"
    if parse: "parseFloat (weight p) = Fin w" "parseFloat (height p) = Fin h"
        "parseInt (age p) = Fin a"
      and u: "BMR_unrounded w h a 5" "BMR_unrounded w h a (- 161)"
  proof (cases "gender p = ''homme''")
    case True
    then show ?thesis
      using calculateBMR_exact [OF parse] u(1) by simp
  next
    case False
    then show ?thesis
      using calculateBMR_exact [OF parse] u(2) by simp
  qed
  show ?thesis
    using ops other exact by blast
qed

theorem calculateBMR_gender_witness:
  "parseFloat (weight example_english_male) = Fin 70
   \<and> parseFloat (height example_english_male) = Fin 175
   \<and> parseInt (age example_english_male) = Fin 30
   \<and> BMR_unrounded 70 175 30 5 \<and> BMR_unrounded 70 175 30 (- 161)
   \<and> gender example_english_male = ''male''
   \<and> gender example_english_male \<noteq> ''homme''
   \<and> calculateBMR example_english_male = Fin (10 * 70 + 25 / 4 * 175 - 5 * 30 - 161)
   \<and> calculateBMR example_english_male \<noteq> Fin (10 * 70 + 25 / 4 * 175 - 5 * 30 + 5)
   \<and> gender (example_rounding\<lparr>gender := ''male''\<rparr>) \<noteq> ''homme''
   \<and> calculateBMR (example_rounding\<lparr>gender := ''male''\<rparr>)
       = Fin (1322382634726195 / 1099511627776)"
proof -
  have g: "gender example_english_male = ''male''"
    and g': "gender example_english_male \<noteq> ''homme''"
    and r: "gender (example_rounding\<lparr>gender := ''male''\<rparr>) \<noteq> ''homme''"
    by (simp_all add: example_english_male_def)
  have u: "BMR_unrounded 70 175 30 5" "BMR_unrounded 70 175 30 (- 161)"
    by code_simp+
  have v: "js_sub (js_sub (js_add
             (js_mul (Fin 10) (parseFloat (weight (example_rounding\<lparr>gender := ''male''\<rparr>))))
             (js_mul (Fin (25 / 4)) (parseFloat (height (example_rounding\<lparr>gender := ''male''\<rparr>)))))
             (js_mul (Fin 5) (parseInt (age (example_rounding\<lparr>gender := ''male''\<rparr>)))))
             (Fin 161)
           = Fin (1322382634726195 / 1099511627776)"
    by code_simp
  note th = calculateBMR_gender [of example_english_male 70 175 30]
  note th' = calculateBMR_gender [of "example_rounding\<lparr>gender := ''male''\<rparr>" 0 0 0]
  have e: "(calculateBMR example_english_male = Fin (10 * 70 + 25 / 4 * 175 - 5 * 30 + 5)
            \<longleftrightarrow> gender example_english_male = ''homme'')
      \<and> (gender example_english_male \<noteq> ''homme'' \<longrightarrow>
           calculateBMR example_english_male = Fin (10 * 70 + 25 / 4 * 175 - 5 * 30 - 161))"
    using th example_english_male_parse u by blast
  have b: "calculateBMR example_english_male = Fin (10 * 70 + 25 / 4 * 175 - 5 * 30 - 161)"
    and nb: "calculateBMR example_english_male \<noteq> Fin (10 * 70 + 25 / 4 * 175 - 5 * 30 + 5)"
    using e g' by blast+
  have c0: "calculateBMR (example_rounding\<lparr>gender := ''male''\<rparr>)
      = js_sub (js_sub (js_add
             (js_mul (Fin 10) (parseFloat (weight (example_rounding\<lparr>gender := ''male''\<rparr>))))
             (js_mul (Fin (25 / 4)) (parseFloat (height (example_rounding\<lparr>gender := ''male''\<rparr>)))))
             (js_mul (Fin 5) (parseInt (age (example_rounding\<lparr>gender := ''male''\<rparr>)))))
             (Fin 161)"
    using th' r by blast
  have c: "calculateBMR (example_rounding\<lparr>gender := ''male''\<rparr>)
      = Fin (1322382634726195 / 1099511627776)"
    by (simp only: c0 v)
  show ?thesis
    using b nb c g g' r u example_english_male_parse by blast
qed

section \<open>The fallback of getActivityMultiplier\<close>

lemma getActivityMultiplier_fallback:
  assumes "activityLevel p \<notin> {''sedentaire'', ''leger'', ''modere'', ''actif'', ''tresActif''}"
    and "activityLevel p \<notin> set Object_prototype_names"
  shows "getActivityMultiplier p = Number (double_of (12 / 10))
       \<and> calculateTDEE p = js_mul (calculateBMR p) (double_of (12 / 10))"
  using assms
  by (simp add: calculateTDEE_def getActivityMultiplier_def get_property_def levels_def js_or_def)

text \<open>
  C10. The fallback \<open>|| 1.2\<close> of \<open>getActivityMultiplier\<close> does not reach every
  activity level outside the five keys: \<open>constructor\<close> is none of them, yet the property
  read finds the member that \<open>levels\<close> inherits, which is truthy, so that the function
  returns it instead of 1.2 and \<open>calculateTDEE\<close> is NaN. Another unknown level,
  \<open>moderate\<close>, gets the multiplier 1.2 and the sedentary TDEE 1978.5.
\<close>

theorem fallback_misses_inherited_names:
  "activityLevel example_constructor
     \<notin> {''sedentaire'', ''leger'', ''modere'', ''actif'', ''tresActif''}
   \<and> getActivityMultiplier example_constructor = Inherited ''constructor''
   \<and> getActivityMultiplier example_constructor \<noteq> Number (double_of (12 / 10))
   \<and> calculateTDEE example_constructor = NaN
   \<and> activityLevel example_unknown_level
     \<notin> {''sedentaire'', ''leger'', ''modere'', ''actif'', ''tresActif''}
   \<and> getActivityMultiplier example_unknown_level = Number (double_of (12 / 10))
   \<and> calculateTDEE example_unknown_level = Fin (19785 / 10)"
  by code_simp

end
